theory Spec2Isabelle
  imports Main "HOL-Library.Word" "HOL-Library.List_Lexorder" "HOL-Library.FSet"
begin

section \<open>wallet\_dump\_masterkey: the data of the tool\<close>

text \<open>
  The source is one translation unit, \<^verbatim>\<open>src/tools/wallet_dump_masterkey.cpp\<close>, whose
  \<^verbatim>\<open>main\<close> drives the wallet library: it loads a wallet, takes a candidate master key
  from the command line, asks a key manager whether the key decrypts the wallet, and
  prints every private key in WIF. The wallet library itself (key managers, key types,
  hex parsing, WIF encoding, secure memory) is linked in and is not part of the sources;
  \<^verbatim>\<open>main\<close> is modelled over an environment that supplies those calls.
\<close>

type_synonym byte = "8 word"

text \<open>\<^verbatim>\<open>CKeyingMaterial\<close>: the byte vector that holds the master key.\<close>

type_synonym CKeyingMaterial = "byte list"

text \<open>
  Modelled from the spec: the declaration of \<^verbatim>\<open>CKeyID\<close> (and its \<^verbatim>\<open>operator<\<close>) is not
  among the sources. The spec's KeyIdentifier is a fixed-length hash of a public key,
  compared in byte order; a key identifier is its byte string, ordered lexicographically
  (the order of \<^verbatim>\<open>HOL-Library.List_Lexorder\<close> on unsigned bytes).
\<close>

type_synonym CKeyID = "byte list"

text \<open>
  Modelled from the spec: the declaration of \<^verbatim>\<open>CKey\<close> is not among the sources. The
  spec's DecodedPrivateKey is a private scalar tagged with its compression state.
\<close>

record CKey =
  keydata :: "byte list"
  fCompressed :: bool

text \<open>
  A call into the wallet library either returns or throws a \<^verbatim>\<open>std::exception\<close>; the
  string is its \<^verbatim>\<open>what()\<close>. The source's own handler around the load (lines 80--90)
  expects such exceptions. The load and the member functions of the key manager are
  modelled so; the getters of the wallet (they return a pointer) and the helpers
  \<^verbatim>\<open>ParseHex\<close>, \<^verbatim>\<open>EncodeSecret\<close>, \<^verbatim>\<open>ToString\<close> and \<^verbatim>\<open>memory_cleanse\<close> always return.
\<close>

datatype 'a call = Returns 'a | Throws string

text \<open>
  A \<^verbatim>\<open>ScriptPubKeyMan\<close> object: its state \<open>self\<close> and the three member functions
  \<^verbatim>\<open>main\<close> calls. \<^verbatim>\<open>CheckDecryptionKey\<close> may change the object (it returns the new state);
  \<^verbatim>\<open>GetKeys\<close> returns a \<^verbatim>\<open>std::set<CKeyID>\<close>; \<^verbatim>\<open>GetKey\<close> returns \<^verbatim>\<open>false\<close> (\<open>None\<close>)
  or fills its out-parameter (\<open>Some key\<close>).
\<close>

record 's ScriptPubKeyMan =
  self :: 's
  CheckDecryptionKey :: "'s \<Rightarrow> CKeyingMaterial \<Rightarrow> bool \<Rightarrow> (bool \<times> 's) call"
  GetKeys :: "'s \<Rightarrow> CKeyID fset call"
  GetKey :: "'s \<Rightarrow> CKeyID \<Rightarrow> CKey option call"

text \<open>A loaded \<^verbatim>\<open>CWallet\<close>: its two getters return a pointer that may be null.\<close>

record 's CWallet =
  GetLegacyScriptPubKeyMan :: "'s ScriptPubKeyMan option"
  GetDescriptorScriptPubKeyMan :: "bool \<Rightarrow> 's ScriptPubKeyMan option"

text \<open>
  The environment of one run: what opening \<^verbatim>\<open><datadir>/wallet.dat\<close> gives (lines
  82--85: the wallet, or an exception), and the library functions \<^verbatim>\<open>ParseHex\<close>,
  \<^verbatim>\<open>EncodeSecret\<close> and \<^verbatim>\<open>CKeyID::ToString\<close>.
\<close>

record 's Env =
  LoadWallet :: "string \<Rightarrow> 's CWallet call"
  ParseHex :: "string \<Rightarrow> byte list"
  EncodeSecret :: "CKey \<Rightarrow> string"
  ToString :: "CKeyID \<Rightarrow> string"

text \<open>
  What a run leaves behind: the lines written to \<^verbatim>\<open>std::cout\<close> and \<^verbatim>\<open>std::cerr\<close> (in
  order, each with its newline), whether the ECC context is started, and the contents
  of the two memory regions that receive the master key: the plain vector \<^verbatim>\<open>mk\<close> of
  line 99 and \<^verbatim>\<open>vMasterKey\<close> of line 100 (\<open>None\<close> before the line has run).
\<close>

record Process =
  cout :: "string list"
  cerr :: "string list"
  ecc :: bool
  mk :: "byte list option"
  vMasterKey :: "CKeyingMaterial option"

text \<open>
  How the process ends: \<^verbatim>\<open>main\<close> returns an exit code, or an exception leaves \<^verbatim>\<open>main\<close>
  uncaught and the runtime terminates the process.
\<close>

datatype Exit = Exit int | Terminate string

section \<open>The program\<close>

definition nl :: string where
  "nl = [CHR 0x0A]"

definition usage_line :: string where
  "usage_line = ''Usage: wallet_dump_masterkey <path-to-wallet-dat-dir> <64-hex-masterkey>'' @ nl"

definition example_line :: string where
  "example_line = ''Example: wallet_dump_masterkey C:'' @ [CHR 0x5C] @ ''btc-testdir 0123...64hex'' @ nl"

definition length_line :: string where
  "length_line = ''Master key must be 64 hex chars (32 bytes)'' @ nl"

definition no_spk_man_line :: string where
  "no_spk_man_line = ''No ScriptPubKeyMan found in wallet (unexpected for legacy wallet)'' @ nl"

definition wrong_key_line :: string where
  "wrong_key_line = ''Master key did NOT decrypt wallet keys (wrong key)'' @ nl"

text \<open>The banner holds an em dash, three bytes in UTF-8.\<close>

definition banner_line :: string where
  "banner_line = ''Master key accepted '' @ [CHR 0xE2, CHR 0x80, CHR 0x94]
     @ '' dumping private keys (WIF):'' @ nl"

definition done_line :: string where
  "done_line = ''Done.'' @ nl"

definition failed_open_line :: "string \<Rightarrow> string" where
  "failed_open_line what = ''Failed to open wallet: '' @ what @ nl"

definition could_not_load_line :: "string \<Rightarrow> string" where
  "could_not_load_line datadir = ''Could not load wallet from: '' @ datadir @ nl"

definition could_not_get_line :: "'s Env \<Rightarrow> CKeyID \<Rightarrow> string" where
  "could_not_get_line env kid = ''Could not get private key for '' @ ToString env kid @ nl"

definition key_line :: "'s Env \<Rightarrow> CKeyID \<Rightarrow> CKey \<Rightarrow> string" where
  "key_line env kid key =
     ''KeyID: '' @ ToString env kid @ ''  WIF: '' @ EncodeSecret env key @ nl"

text \<open>
  Modelled from the spec: \<^verbatim>\<open>memory_cleanse(ptr, len)\<close> is not among the sources. The
  spec says the region is overwritten with zeros: the first \<open>len\<close> bytes of the buffer
  become zero.
\<close>

definition memory_cleanse :: "byte list \<Rightarrow> nat \<Rightarrow> byte list" where
  "memory_cleanse buf len = replicate (min len (length buf)) 0 @ drop len buf"

text \<open>Lines 104--109: the legacy manager if there is one, else the descriptor one.\<close>

definition find_spk_man :: "'s CWallet \<Rightarrow> 's ScriptPubKeyMan option" where
  "find_spk_man wallet =
     (if GetLegacyScriptPubKeyMan wallet \<noteq> None then GetLegacyScriptPubKeyMan wallet
      else if GetDescriptorScriptPubKeyMan wallet False \<noteq> None
           then GetDescriptorScriptPubKeyMan wallet False
      else None)"

text \<open>
  Lines 131--141, the loop over the key identifiers in the order the \<^verbatim>\<open>std::set\<close>
  iterates: a key that \<^verbatim>\<open>GetKey\<close> does not give is reported on \<^verbatim>\<open>std::cerr\<close> and
  skipped, any other is printed. The first component is the \<^verbatim>\<open>what()\<close> of an
  exception thrown by \<^verbatim>\<open>GetKey\<close>, which ends the loop.
\<close>

fun dump_keys ::
  "'s Env \<Rightarrow> 's ScriptPubKeyMan \<Rightarrow> 's \<Rightarrow> CKeyID list \<Rightarrow> Process \<Rightarrow> string option \<times> Process"
where
  "dump_keys env spk_man s [] p = (None, p)"
| "dump_keys env spk_man s (kid # kids) p =
     (case GetKey spk_man s kid of
        Throws what \<Rightarrow> (Some what, p)
      | Returns None \<Rightarrow>
          dump_keys env spk_man s kids (p\<lparr>cerr := cerr p @ [could_not_get_line env kid]\<rparr>)
      | Returns (Some key) \<Rightarrow>
          dump_keys env spk_man s kids (p\<lparr>cout := cout p @ [key_line env kid key]\<rparr>))"

text \<open>
  Lines 119--147: the key check with \<^verbatim>\<open>accept_no_keys = true\<close>, then the export. No
  handler encloses these calls, so an exception thrown by the key manager leaves
  \<^verbatim>\<open>main\<close> at once.
\<close>

definition check_and_dump ::
  "'s Env \<Rightarrow> 's ScriptPubKeyMan \<Rightarrow> CKeyingMaterial \<Rightarrow> Process \<Rightarrow> Exit \<times> Process"
where
  "check_and_dump env spk_man key p =
     (case CheckDecryptionKey spk_man (self spk_man) key True of
        Throws what \<Rightarrow> (Terminate what, p)
      | Returns (ok, s) \<Rightarrow>
          if \<not> ok then
            (Exit 2, p\<lparr>cerr := cerr p @ [wrong_key_line],
                       vMasterKey := Some (memory_cleanse key (length key)),
                       ecc := False\<rparr>)
          else
            let p = p\<lparr>cout := cout p @ [banner_line]\<rparr> in
            (case GetKeys spk_man s of
               Throws what \<Rightarrow> (Terminate what, p)
             | Returns keys \<Rightarrow>
                 (case dump_keys env spk_man s (sorted_list_of_fset keys) p of
                    (Some what, p) \<Rightarrow> (Terminate what, p)
                  | (None, p) \<Rightarrow>
                      (Exit 0, p\<lparr>vMasterKey := Some (memory_cleanse key (length key)),
                                 ecc := False,
                                 cout := cout p @ [done_line]\<rparr>))))"

text \<open>
  \<^verbatim>\<open>main(argc, argv)\<close>: \<open>argv\<close> is the argument vector with the program name first, so
  \<open>argc = length argv\<close>. \<^verbatim>\<open>SetupEnvironmentAndParams\<close> and the argument manager only
  configure the library (data directory, regtest parameters), which the environment
  stands for; they write nothing.
\<close>

definition main :: "'s Env \<Rightarrow> string list \<Rightarrow> Exit \<times> Process" where
  "main env argv =
     (let p = \<lparr>cout = [], cerr = [], ecc = False, mk = None, vMasterKey = None\<rparr> in
      if length argv < 3 then (Exit 1, p\<lparr>cerr := [usage_line, example_line]\<rparr>)
      else
        let datadir = argv ! 1; hex = argv ! 2 in
        if length hex \<noteq> 64 then (Exit 1, p\<lparr>cerr := [length_line]\<rparr>)
        else
          let p = p\<lparr>ecc := True\<rparr> in
          (case LoadWallet env datadir of
             Throws what \<Rightarrow>
               (Exit 1, p\<lparr>cerr := [failed_open_line what, could_not_load_line datadir],
                          ecc := False\<rparr>)
           | Returns wallet \<Rightarrow>
               let key = ParseHex env hex;
                   p = p\<lparr>mk := Some key, vMasterKey := Some key\<rparr>
               in (case find_spk_man wallet of
                     None \<Rightarrow>
                       (Exit 1, p\<lparr>cerr := [no_spk_man_line],
                                  vMasterKey := Some (memory_cleanse key (length key)),
                                  ecc := False\<rparr>)
                   | Some spk_man \<Rightarrow> check_and_dump env spk_man key p)))"

section \<open>The key manager and the key encoding, as the spec describes them\<close>

text \<open>
  \<^verbatim>\<open>main\<close> calls \<^verbatim>\<open>CheckDecryptionKey\<close>, \<^verbatim>\<open>GetKeys\<close>, \<^verbatim>\<open>GetKey\<close> and \<^verbatim>\<open>EncodeSecret\<close>, none of
  which is among the sources. The definitions of this section follow the spec's description
  of them (its sections 3, 4.2, 4.3 and 6) and are used only for the claims about what
  these functions compute.
\<close>

text \<open>Modelled from the spec: the Verifier's only error kind (section 4.2).\<close>

datatype VerifyError = WrongKey

text \<open>
  Modelled from the spec: the wallet database is not among the sources. Section 3: an
  EncryptedKeyRecord associates a KeyIdentifier, its full public key and a ciphertext;
  a KeyStore owns the encrypted records, and (section 4.1) the plaintext key records of
  a store that is only partially encrypted.
\<close>

record EncryptedKeyRecord =
  key_id :: CKeyID
  pubkey :: "byte list"
  ciphertext :: "byte list"

record KeyStore =
  encrypted :: "EncryptedKeyRecord list"
  plaintext :: "(CKeyID \<times> CKey) list"

text \<open>
  Modelled from the spec: the block cipher and the elliptic curve are not among the
  sources and are parameters. \<open>Decrypt\<close> is section 4.2's ``symmetric decryption of its
  ciphertext using \<open>master_key\<close> and the record's implied initialization vector'', \<open>None\<close>
  when padding or integrity validation fails; \<open>GetPubKey\<close> gives ``the recovered private
  scalar's corresponding public key''.
\<close>

record Cipher =
  Decrypt :: "CKeyingMaterial \<Rightarrow> EncryptedKeyRecord \<Rightarrow> CKey option"
  GetPubKey :: "CKey \<Rightarrow> byte list"

text \<open>
  Modelled from the spec: \<^verbatim>\<open>CheckDecryptionKey\<close> is not among the sources. Section 4.2,
  \<open>verify_and_decrypt(store, master_key, accept_no_keys)\<close>: with no encrypted record the
  result is the empty mapping or \<open>WrongKey\<close> according to \<open>accept_no_keys\<close>; otherwise
  every record is decrypted, a failed padding check on any record is \<open>WrongKey\<close>, a
  recovered key whose public key is not the record's is \<open>WrongKey\<close>, and on full success
  the mapping of every encrypted record is returned, merged with the plaintext records.
\<close>

definition verify_and_decrypt ::
  "Cipher \<Rightarrow> KeyStore \<Rightarrow> CKeyingMaterial \<Rightarrow> bool \<Rightarrow> VerifyError + (CKeyID \<times> CKey) list"
where
  "verify_and_decrypt c store master_key accept_no_keys =
     (if encrypted store = [] then
        (if accept_no_keys then Inr [] else Inl WrongKey)
      else
        let decoded = map (Decrypt c master_key) (encrypted store) in
        if None \<in> set decoded then Inl WrongKey
        else
          let keys = map the decoded in
          if \<exists>(r, key) \<in> set (zip (encrypted store) keys). GetPubKey c key \<noteq> pubkey r
          then Inl WrongKey
          else Inr (zip (map key_id (encrypted store)) keys @ plaintext store))"

text \<open>
  Modelled from the spec: the key manager class is not among the sources. The glossary's
  ``abstraction owning a set of keypairs and the decryption logic over them'':
  \<^verbatim>\<open>CheckDecryptionKey\<close> is the Verifier, returning \<^verbatim>\<open>false\<close> on \<open>WrongKey\<close>; after a
  successful check the object holds the returned mapping, which the Exporter (section
  4.3) reads through \<^verbatim>\<open>GetKeys\<close> and \<^verbatim>\<open>GetKey\<close>.
\<close>

definition store_spk_man :: "Cipher \<Rightarrow> KeyStore \<Rightarrow> (CKeyID \<times> CKey) list ScriptPubKeyMan" where
  "store_spk_man c store =
     \<lparr>self = [],
      CheckDecryptionKey = (\<lambda>s master_key accept_no_keys.
         case verify_and_decrypt c store master_key accept_no_keys of
           Inl WrongKey \<Rightarrow> Returns (False, s)
         | Inr mapping \<Rightarrow> Returns (True, mapping)),
      GetKeys = (\<lambda>s. Returns (fset_of_list (map fst s))),
      GetKey = (\<lambda>s kid. Returns (map_of s kid))\<rparr>"

text \<open>
  Modelled from the spec: the Base58 codec is not among the sources. Section 6 names
  the encoding (``base-58-with-checksum''): the bytes are read as a big-endian number
  and written in base 58 with the Bitcoin alphabet, every leading zero byte as one
  leading \<^verbatim>\<open>1\<close>. \<open>to_base\<close> and \<open>from_base\<close> convert between a number and its digits,
  most significant first.
\<close>

function to_base :: "nat \<Rightarrow> nat \<Rightarrow> nat list" where
  "to_base b n = (if b < 2 \<or> n = 0 then [] else to_base b (n div b) @ [n mod b])"
  by pat_completeness auto
termination
  by (relation "measure snd") auto

definition from_base :: "nat \<Rightarrow> nat list \<Rightarrow> nat" where
  "from_base b ds = foldl (\<lambda>acc d. acc * b + d) 0 ds"

definition pszBase58 :: string where
  "pszBase58 = ''123456789ABCDEFGHJKLMNPQRSTUVWXYZabcdefghijkmnopqrstuvwxyz''"

definition base58_digit :: "char \<Rightarrow> nat option" where
  "base58_digit c = map_of (zip pszBase58 [0 ..< 58]) c"

definition EncodeBase58 :: "byte list \<Rightarrow> string" where
  "EncodeBase58 bs =
     replicate (length (takeWhile (\<lambda>b. b = 0) bs)) (CHR ''1'')
     @ map (\<lambda>d. pszBase58 ! d) (to_base 58 (from_base 256 (map unat bs)))"

definition DecodeBase58 :: "string \<Rightarrow> byte list option" where
  "DecodeBase58 str =
     (case those (map base58_digit str) of
        None \<Rightarrow> None
      | Some ds \<Rightarrow>
          Some (replicate (length (takeWhile (\<lambda>c. c = CHR ''1'') str)) 0
                @ map of_nat (to_base 256 (from_base 58 ds))))"

text \<open>
  Modelled from the spec: \<^verbatim>\<open>EncodeSecret\<close> and its decoder are not among the sources.
  Section 6, the layout before Base58:
  \<^verbatim>\<open>[version_byte][32-byte private scalar][optional 0x01 compression flag][4-byte double-hash checksum of preceding bytes]\<close>.
  The hash function is a parameter. The decoder reads the same layout back and accepts
  nothing else.
\<close>

definition EncodeSecret_wif :: "(byte list \<Rightarrow> byte list) \<Rightarrow> byte \<Rightarrow> CKey \<Rightarrow> string" where
  "EncodeSecret_wif Hash version key =
     (let data = [version] @ keydata key @ (if fCompressed key then [1] else [])
      in EncodeBase58 (data @ take 4 (Hash (Hash data))))"

definition DecodeSecret_wif :: "(byte list \<Rightarrow> byte list) \<Rightarrow> byte \<Rightarrow> string \<Rightarrow> CKey option" where
  "DecodeSecret_wif Hash version str =
     (case DecodeBase58 str of
        None \<Rightarrow> None
      | Some bytes \<Rightarrow>
          if length bytes < 4 then None
          else
            let data = take (length bytes - 4) bytes;
                checksum = drop (length bytes - 4) bytes
            in if checksum \<noteq> take 4 (Hash (Hash data)) then None
               else (case data of
                       [] \<Rightarrow> None
                     | v # payload \<Rightarrow>
                         if v \<noteq> version then None
                         else if length payload = 32
                           then Some \<lparr>keydata = payload, fCompressed = False\<rparr>
                         else if length payload = 33 \<and> last payload = 1
                           then Some \<lparr>keydata = butlast payload, fCompressed = True\<rparr>
                         else None))"

section \<open>Reading a run\<close>

text \<open>
  Vocabulary for the statements below. Of a list of key identifiers, \<open>exported\<close> are
  those for which \<^verbatim>\<open>GetKey\<close> gives a key (with that key), \<open>skipped\<close> those for which it
  returns \<^verbatim>\<open>false\<close>. A key line is an output line that starts with \<^verbatim>\<open>KeyID: \<close>.
\<close>

definition exported :: "'s ScriptPubKeyMan \<Rightarrow> 's \<Rightarrow> CKeyID list \<Rightarrow> (CKeyID \<times> CKey) list" where
  "exported spk_man s kids =
     List.map_filter
       (\<lambda>kid. case GetKey spk_man s kid of Returns (Some key) \<Rightarrow> Some (kid, key) | _ \<Rightarrow> None)
       kids"

definition skipped :: "'s ScriptPubKeyMan \<Rightarrow> 's \<Rightarrow> CKeyID list \<Rightarrow> CKeyID list" where
  "skipped spk_man s kids = filter (\<lambda>kid. GetKey spk_man s kid = Returns None) kids"

definition is_key_line :: "string \<Rightarrow> bool" where
  "is_key_line l = (take 7 l = ''KeyID: '')"

text \<open>
  The value of a hex digit (\<^verbatim>\<open>0\<close>--\<^verbatim>\<open>9\<close>, \<^verbatim>\<open>a\<close>--\<^verbatim>\<open>f\<close>, \<^verbatim>\<open>A\<close>--\<^verbatim>\<open>F\<close>); \<open>None\<close> for any other
  character.
\<close>

definition HexDigit :: "char \<Rightarrow> nat option" where
  "HexDigit c =
     (let n = (of_char c :: nat) in
      if 48 \<le> n \<and> n \<le> 57 then Some (n - 48)
      else if 97 \<le> n \<and> n \<le> 102 then Some (n - 87)
      else if 65 \<le> n \<and> n \<le> 70 then Some (n - 55)
      else None)"


section \<open>Concrete runs\<close>

text \<open>
  A small world to run the program in: a hex parser of the kind the tool links against
  (two hex digits per byte, stopping at the first character that is not a hex digit),
  key identifiers of twenty bytes, and key managers that accept exactly one master key.
  Identifiers and keys are printed in hex.
\<close>

definition hex_byte :: "byte \<Rightarrow> string" where
  "hex_byte b = [''0123456789abcdef'' ! (unat b div 16), ''0123456789abcdef'' ! (unat b mod 16)]"

fun parse_hex_pairs :: "string \<Rightarrow> byte list" where
  "parse_hex_pairs (a # b # rest) =
     (case (HexDigit a, HexDigit b) of
        (Some x, Some y) \<Rightarrow> of_nat (16 * x + y) # parse_hex_pairs rest
      | _ \<Rightarrow> [])"
| "parse_hex_pairs _ = []"

definition hex_of_key :: string where
  "hex_of_key = ''a7a7a7a7a7a7a7a7a7a7a7a7a7a7a7a7a7a7a7a7a7a7a7a7a7a7a7a7a7a7a7a7''"



definition the_key :: CKeyingMaterial where
  "the_key = replicate 32 0xA7"

definition kid1 :: CKeyID where "kid1 = replicate 20 1"
definition kid2 :: CKeyID where "kid2 = replicate 20 2"
definition kid3 :: CKeyID where "kid3 = replicate 20 3"

definition key_of :: "CKeyID \<Rightarrow> CKey" where
  "key_of kid = \<lparr>keydata = replicate 32 (hd kid), fCompressed = True\<rparr>"

text \<open>
  A manager holding three keys, of which \<open>kid2\<close> cannot be retrieved; it accepts
  \<open>the_key\<close> only.
\<close>

definition legacy_man :: "unit ScriptPubKeyMan" where
  "legacy_man =
     \<lparr>self = (),
      CheckDecryptionKey = (\<lambda>s key accept_no_keys. Returns (key = the_key, s)),
      GetKeys = (\<lambda>s. Returns {|kid3, kid1, kid2|}),
      GetKey = (\<lambda>s kid. Returns (if kid = kid2 then None else Some (key_of kid)))\<rparr>"

text \<open>A manager with no keys that rejects every master key.\<close>

definition descriptor_man :: "unit ScriptPubKeyMan" where
  "descriptor_man =
     \<lparr>self = (),
      CheckDecryptionKey = (\<lambda>s key accept_no_keys. Returns (False, s)),
      GetKeys = (\<lambda>s. Returns {||}),
      GetKey = (\<lambda>s kid. Returns None)\<rparr>"

text \<open>A manager whose key check throws.\<close>

definition throwing_man :: "unit ScriptPubKeyMan" where
  "throwing_man =
     \<lparr>self = (),
      CheckDecryptionKey = (\<lambda>s key accept_no_keys. Throws ''some keys decrypt but not all''),
      GetKeys = (\<lambda>s. Returns {||}),
      GetKey = (\<lambda>s kid. Returns None)\<rparr>"

definition wallet_of ::
  "'s ScriptPubKeyMan option \<Rightarrow> 's ScriptPubKeyMan option \<Rightarrow> 's CWallet" where
  "wallet_of legacy descriptor =
     \<lparr>GetLegacyScriptPubKeyMan = legacy,
      GetDescriptorScriptPubKeyMan = (\<lambda>internal. if internal then None else descriptor)\<rparr>"

definition env_of :: "'s CWallet \<Rightarrow> 's Env" where
  "env_of wallet =
     \<lparr>LoadWallet = (\<lambda>datadir. Returns wallet),
      ParseHex = parse_hex_pairs,
      EncodeSecret = (\<lambda>key. concat (map hex_byte (keydata key))
                             @ (if fCompressed key then ''01'' else [])),
      ToString = (\<lambda>kid. concat (map hex_byte kid))\<rparr>"

text \<open>
  A stand-in cipher for concrete runs: the ciphertext is the scalar plus the key, byte
  by byte, followed by one block of padding; the public key of a scalar is the scalar
  itself. \<open>record1\<close> is the key of \<open>kid1\<close> encrypted under \<open>the_key\<close>.
\<close>

definition toy_cipher :: Cipher where
  "toy_cipher =
     \<lparr>Decrypt = (\<lambda>master_key r.
        if length (ciphertext r) = 48 \<and> drop 32 (ciphertext r) = replicate 16 16
        then Some \<lparr>keydata = map2 (-) (take 32 (ciphertext r)) master_key, fCompressed = True\<rparr>
        else None),
      GetPubKey = keydata\<rparr>"


definition record1 :: EncryptedKeyRecord where
  "record1 = \<lparr>key_id = kid1, pubkey = replicate 32 1,
              ciphertext = replicate 32 0xA8 @ replicate 16 16\<rparr>"

definition store1 :: KeyStore where
  "store1 = \<lparr>encrypted = [record1], plaintext = []\<rparr>"

definition empty_store :: KeyStore where
  "empty_store = \<lparr>encrypted = [], plaintext = []\<rparr>"

text \<open>A stand-in hash for concrete runs.\<close>

definition toy_hash :: "byte list \<Rightarrow> byte list" where
  "toy_hash x = replicate 32 (sum_list x)"

section \<open>Properties of the program\<close>

lemma memory_cleanse_all [simp]: "memory_cleanse buf (length buf) = replicate (length buf) 0"
  by (simp add: memory_cleanse_def)

lemma parse_hex_of_key: "parse_hex_pairs hex_of_key = the_key"
  by code_simp

lemma length_hex_of_key: "length hex_of_key = 64"
  by (simp add: hex_of_key_def)

subsection \<open>The export loop\<close>

lemma exported_Nil [simp]: "exported m s [] = []"
  by (simp add: exported_def map_filter_simps)

lemma exported_Cons:
  "exported m s (k # ks) =
     (case GetKey m s k of Returns (Some key) \<Rightarrow> (k, key) # exported m s ks
      | _ \<Rightarrow> exported m s ks)"
  by (simp add: exported_def map_filter_simps split: call.splits option.splits)


text \<open>When every \<^verbatim>\<open>GetKey\<close> call returns, the loop runs to its end.\<close>

lemma dump_keys_returns:
  "\<forall>k\<in>set ks. \<exists>r. GetKey m s k = Returns r \<Longrightarrow>
   dump_keys env m s ks p =
     (None, p\<lparr>cout := cout p @ map (\<lambda>(k, key). key_line env k key) (exported m s ks),
              cerr := cerr p @ map (could_not_get_line env) (skipped m s ks)\<rparr>)"
proof (induction ks arbitrary: p)
  case Nil
  then show ?case by (simp add: skipped_def)
next
  case (Cons k ks)
  then obtain r where r: "GetKey m s k = Returns r" by auto
  from Cons have IH: "\<And>p. dump_keys env m s ks p =
     (None, p\<lparr>cout := cout p @ map (\<lambda>(k, key). key_line env k key) (exported m s ks),
              cerr := cerr p @ map (could_not_get_line env) (skipped m s ks)\<rparr>)"
    by simp
  show ?case
    by (cases r) (simp_all add: r IH exported_Cons skipped_def)
qed




lemma main_export:
  assumes "3 \<le> length argv" and "length (argv ! 2) = 64"
    and "LoadWallet env (argv ! 1) = Returns wallet"
    and "find_spk_man wallet = Some m"
    and "CheckDecryptionKey m (self m) (ParseHex env (argv ! 2)) True = Returns (True, s)"
    and "GetKeys m s = Returns keys"
    and "\<forall>k\<in>fset keys. \<exists>r. GetKey m s k = Returns r"
  shows "main env argv =
    (Exit 0,
     \<lparr>cout = [banner_line]
         @ map (\<lambda>(k, key). key_line env k key) (exported m s (sorted_list_of_fset keys))
         @ [done_line],
      cerr = map (could_not_get_line env) (skipped m s (sorted_list_of_fset keys)),
      ecc = False,
      mk = Some (ParseHex env (argv ! 2)),
      vMasterKey = Some (replicate (length (ParseHex env (argv ! 2))) 0)\<rparr>)"
proof -
  have "\<forall>k\<in>set (sorted_list_of_fset keys). \<exists>r. GetKey m s k = Returns r"
    using assms(7) by simp
  from dump_keys_returns [OF this] assms(1-6) show ?thesis
    by (simp add: main_def check_and_dump_def Let_def)
qed

lemma is_key_line_simps [simp]:
  "is_key_line banner_line = False" "is_key_line done_line = False"
  "is_key_line (key_line env k key) = True"
  by (simp_all add: is_key_line_def banner_line_def done_line_def key_line_def)

lemma filter_key_lines [simp]:
  "filter is_key_line (map (\<lambda>(k, key). key_line env k key) kks) =
     map (\<lambda>(k, key). key_line env k key) kks"
  by (induction kks) auto


lemma sorted_example_keys:
  "sorted_list_of_fset {|kid3, kid1, kid2|} = [kid1, kid2, kid3]"
  by code_simp

lemma set_exported:
  "(k, key) \<in> set (exported m s ks) \<longleftrightarrow> k \<in> set ks \<and> GetKey m s k = Returns (Some key)"
  by (induction ks) (auto simp: exported_Cons split: call.splits option.splits)

lemma example_run_reaches_export:
  fixes argv env
  defines "argv \<equiv> [''wallet_dump_masterkey'', ''dir'', hex_of_key]"
    and "env \<equiv> env_of (wallet_of (Some legacy_man) (Some descriptor_man))"
  shows "3 \<le> length argv" and "length (argv ! 2) = 64"
    and "LoadWallet env (argv ! 1) = Returns (wallet_of (Some legacy_man) (Some descriptor_man))"
    and "find_spk_man (wallet_of (Some legacy_man) (Some descriptor_man)) = Some legacy_man"
    and "CheckDecryptionKey legacy_man (self legacy_man) (ParseHex env (argv ! 2)) True
           = Returns (True, ())"
    and "GetKeys legacy_man () = Returns {|kid3, kid1, kid2|}"
    and "\<forall>k\<in>fset {|kid3, kid1, kid2|}. \<exists>r. GetKey legacy_man () k = Returns r"
  by (simp_all add: argv_def env_def length_hex_of_key env_of_def wallet_of_def
      find_spk_man_def legacy_man_def parse_hex_of_key)

lemma example_exported:
  "exported legacy_man () [kid1, kid2, kid3] = [(kid1, key_of kid1), (kid3, key_of kid3)]"
  by (simp add: exported_Cons legacy_man_def kid1_def kid2_def kid3_def)

lemma example_skipped: "skipped legacy_man () [kid1, kid2, kid3] = [kid2]"
  by (simp add: skipped_def legacy_man_def kid1_def kid2_def kid3_def)

subsection \<open>The master key: parsing and wiping\<close>




lemma check_and_dump_return:
  "fst (check_and_dump env m key p) = Exit code \<Longrightarrow>
   vMasterKey (snd (check_and_dump env m key p)) = Some (replicate (length key) 0)"
  by (auto simp add: check_and_dump_def Let_def split: call.splits prod.splits option.splits if_splits)

lemma main_return_wipes_vMasterKey:
  assumes "fst (main env argv) = Exit code"
  shows "vMasterKey (snd (main env argv)) = None \<or>
         vMasterKey (snd (main env argv)) = Some (replicate (length (ParseHex env (argv ! 2))) 0)"
proof (cases "3 \<le> length argv \<and> length (argv ! 2) = 64")
  case False
  then show ?thesis by (auto simp add: main_def Let_def)
next
  case True
  show ?thesis
  proof (cases "LoadWallet env (argv ! 1)")
    case (Throws e)
    with True show ?thesis by (simp add: main_def Let_def)
  next
    case (Returns wallet)
    show ?thesis
    proof (cases "find_spk_man wallet")
      case None
      with True Returns show ?thesis by (simp add: main_def Let_def)
    next
      case (Some m)
      with True Returns have "main env argv =
          check_and_dump env m (ParseHex env (argv ! 2))
            \<lparr>cout = [], cerr = [], ecc = True,
             mk = Some (ParseHex env (argv ! 2)),
             vMasterKey = Some (ParseHex env (argv ! 2))\<rparr>"
        by (simp add: main_def Let_def)
      with assms check_and_dump_return show ?thesis by metis
    qed
  qed
qed

subsection \<open>The claims about the program\<close>

text \<open>
  Claim C10. If the loaded wallet has neither a legacy nor a descriptor key manager, the
  program writes its error message to the error stream, zeroes the master-key buffer,
  stops the ECC context and returns 1 (not the wrong-key code 2); nothing is written to
  the output stream, so no key line is printed.
\<close>

theorem no_spk_man_exit_1:
  assumes "3 \<le> length argv" and "length (argv ! 2) = 64"
    and "LoadWallet env (argv ! 1) = Returns wallet"
    and "GetLegacyScriptPubKeyMan wallet = None"
    and "GetDescriptorScriptPubKeyMan wallet False = None"
  shows "main env argv =
    (Exit 1, \<lparr>cout = [], cerr = [no_spk_man_line], ecc = False,
              mk = Some (ParseHex env (argv ! 2)),
              vMasterKey = Some (replicate (length (ParseHex env (argv ! 2))) 0)\<rparr>)"
  using assms by (simp add: main_def Let_def find_spk_man_def)

theorem no_spk_man_exit_1_witness:
  "main (env_of (wallet_of (None :: unit ScriptPubKeyMan option) None))
     [''wallet_dump_masterkey'', ''dir'', hex_of_key] =
    (Exit 1, \<lparr>cout = [], cerr = [no_spk_man_line], ecc = False,
              mk = Some the_key, vMasterKey = Some (replicate 32 0)\<rparr>)"
  using no_spk_man_exit_1 [of "[''wallet_dump_masterkey'', ''dir'', hex_of_key]"
      "env_of (wallet_of (None :: unit ScriptPubKeyMan option) None)" "wallet_of None None"]
  by (simp add: env_of_def wallet_of_def length_hex_of_key parse_hex_of_key the_key_def)

text \<open>
  Claim C8. When the wallet has a legacy key manager, the program selects it and runs
  the key check and the export on it, whatever the descriptor getter would return; the
  descriptor manager is what is selected only when there is no legacy manager.
\<close>

theorem legacy_preferred:
  assumes "3 \<le> length argv" and "length (argv ! 2) = 64"
    and "LoadWallet env (argv ! 1) = Returns wallet"
  shows "(\<forall>legacy. GetLegacyScriptPubKeyMan wallet = Some legacy \<longrightarrow>
            find_spk_man wallet = Some legacy \<and>
            (\<forall>g. find_spk_man (wallet\<lparr>GetDescriptorScriptPubKeyMan := g\<rparr>) = Some legacy) \<and>
            main env argv =
              check_and_dump env legacy (ParseHex env (argv ! 2))
                \<lparr>cout = [], cerr = [], ecc = True,
                 mk = Some (ParseHex env (argv ! 2)),
                 vMasterKey = Some (ParseHex env (argv ! 2))\<rparr>) \<and>
         (GetLegacyScriptPubKeyMan wallet = None \<longrightarrow>
            find_spk_man wallet = GetDescriptorScriptPubKeyMan wallet False)"
  using assms by (auto simp add: main_def Let_def find_spk_man_def)

theorem legacy_preferred_witness:
  "find_spk_man (wallet_of (Some legacy_man) (Some descriptor_man)) = Some legacy_man \<and>
   fst (main (env_of (wallet_of (Some legacy_man) (Some descriptor_man)))
          [''wallet_dump_masterkey'', ''dir'', hex_of_key]) = Exit 0 \<and>
   find_spk_man (wallet_of None (Some descriptor_man)) = Some descriptor_man"
proof -
  let ?w = "wallet_of (Some legacy_man) (Some descriptor_man)"
  let ?argv = "[''wallet_dump_masterkey'', ''dir'', hex_of_key]"
  have a: "3 \<le> length ?argv" "length (?argv ! 2) = 64"
    "LoadWallet (env_of ?w) (?argv ! 1) = Returns ?w"
    by (simp_all add: length_hex_of_key env_of_def)
  have b: "GetLegacyScriptPubKeyMan ?w = Some legacy_man"
    by (simp add: wallet_of_def)
  have c: "fst (check_and_dump (env_of ?w) legacy_man (ParseHex (env_of ?w) (?argv ! 2))
                \<lparr>cout = [], cerr = [], ecc = True,
                 mk = Some (ParseHex (env_of ?w) (?argv ! 2)),
                 vMasterKey = Some (ParseHex (env_of ?w) (?argv ! 2))\<rparr>) = Exit 0"
    by (simp add: check_and_dump_def env_of_def parse_hex_of_key legacy_man_def
        sorted_list_of_fset.rep_eq kid1_def kid2_def kid3_def)
  let ?w' = "wallet_of None (Some descriptor_man)"
  have a': "LoadWallet (env_of ?w') (?argv ! 1) = Returns ?w'"
    by (simp add: env_of_def)
  have b': "GetLegacyScriptPubKeyMan ?w' = None"
    "GetDescriptorScriptPubKeyMan ?w' False = Some descriptor_man"
    by (simp_all add: wallet_of_def)
  from legacy_preferred [OF a] b c legacy_preferred [OF a(1,2) a'] b'
  show ?thesis by simp
qed


text \<open>
  Claim C5. A run in which the master key is accepted and the key manager's calls return
  (in particular one in which at least one key is exported) returns 0, and its output
  stream holds the banner line, then one line \<^verbatim>\<open>KeyID: <id>  WIF: <wif>\<close> for each exported
  key and no other, then the completion line.
\<close>

theorem export_prints_banner_keys_done:
  assumes "3 \<le> length argv" and "length (argv ! 2) = 64"
    and "LoadWallet env (argv ! 1) = Returns wallet"
    and "find_spk_man wallet = Some m"
    and "CheckDecryptionKey m (self m) (ParseHex env (argv ! 2)) True = Returns (True, s)"
    and "GetKeys m s = Returns keys"
    and "\<forall>k\<in>fset keys. \<exists>r. GetKey m s k = Returns r"
  shows "fst (main env argv) = Exit 0 \<and>
    cout (snd (main env argv)) =
      [banner_line]
      @ map (\<lambda>(kid, key). ''KeyID: '' @ ToString env kid @ ''  WIF: '' @ EncodeSecret env key @ nl)
          (exported m s (sorted_list_of_fset keys))
      @ [done_line]"
  using main_export [OF assms] by (simp add: key_line_def)

theorem export_prints_banner_keys_done_witness:
  "fst (main (env_of (wallet_of (Some legacy_man) (Some descriptor_man)))
          [''wallet_dump_masterkey'', ''dir'', hex_of_key]) = Exit 0 \<and>
   cout (snd (main (env_of (wallet_of (Some legacy_man) (Some descriptor_man)))
          [''wallet_dump_masterkey'', ''dir'', hex_of_key])) =
     [banner_line,
      key_line (env_of (wallet_of (Some legacy_man) (Some descriptor_man))) kid1 (key_of kid1),
      key_line (env_of (wallet_of (Some legacy_man) (Some descriptor_man))) kid3 (key_of kid3),
      done_line]"
  using export_prints_banner_keys_done [OF example_run_reaches_export]
  by (simp add: sorted_example_keys example_exported key_line_def)

text \<open>
  Claim C4. In a run that reaches the export and in which the key manager's calls
  return, every key identifier whose private key \<^verbatim>\<open>GetKey\<close> does not give is skipped
  with one warning line on the error stream, every other key of the store is still
  printed, and the run returns 0: a key that fails never aborts the export.
\<close>

theorem failed_key_is_skipped:
  assumes "3 \<le> length argv" and "length (argv ! 2) = 64"
    and "LoadWallet env (argv ! 1) = Returns wallet"
    and "find_spk_man wallet = Some m"
    and "CheckDecryptionKey m (self m) (ParseHex env (argv ! 2)) True = Returns (True, s)"
    and "GetKeys m s = Returns keys"
    and "\<forall>k\<in>fset keys. \<exists>r. GetKey m s k = Returns r"
  shows "fst (main env argv) = Exit 0 \<and>
    cerr (snd (main env argv)) =
      map (could_not_get_line env) (skipped m s (sorted_list_of_fset keys)) \<and>
    filter is_key_line (cout (snd (main env argv))) =
      map (\<lambda>(kid, key). key_line env kid key) (exported m s (sorted_list_of_fset keys)) \<and>
    (\<forall>kid\<in>fset keys.
       (GetKey m s kid = Returns None \<longrightarrow>
          could_not_get_line env kid \<in> set (cerr (snd (main env argv)))) \<and>
       (\<forall>key. GetKey m s kid = Returns (Some key) \<longrightarrow>
          key_line env kid key \<in> set (cout (snd (main env argv)))))"
proof -
  note run = main_export [OF assms]
  have a: "fst (main env argv) = Exit 0"
    and b: "cerr (snd (main env argv)) =
      map (could_not_get_line env) (skipped m s (sorted_list_of_fset keys))"
    and c: "cout (snd (main env argv)) = [banner_line]
         @ map (\<lambda>(k, key). key_line env k key) (exported m s (sorted_list_of_fset keys))
         @ [done_line]"
    by (simp_all add: run)
  have d: "filter is_key_line (cout (snd (main env argv))) =
      map (\<lambda>(kid, key). key_line env kid key) (exported m s (sorted_list_of_fset keys))"
    by (simp add: c)
  have e: "could_not_get_line env kid \<in> set (cerr (snd (main env argv)))"
    if "kid \<in> fset keys" "GetKey m s kid = Returns None" for kid
    using that by (simp add: b skipped_def)
  have f: "key_line env kid key \<in> set (cout (snd (main env argv)))"
    if "kid \<in> fset keys" "GetKey m s kid = Returns (Some key)" for kid key
  proof -
    have "(kid, key) \<in> set (exported m s (sorted_list_of_fset keys))"
      using that by (simp add: set_exported)
    then have "key_line env kid key \<in>
        (\<lambda>(k, key). key_line env k key) ` set (exported m s (sorted_list_of_fset keys))"
      by force
    then show ?thesis by (simp add: c)
  qed
  from a b d e f show ?thesis by blast
qed

theorem failed_key_is_skipped_witness:
  "fst (main (env_of (wallet_of (Some legacy_man) (Some descriptor_man)))
          [''wallet_dump_masterkey'', ''dir'', hex_of_key]) = Exit 0 \<and>
   cerr (snd (main (env_of (wallet_of (Some legacy_man) (Some descriptor_man)))
          [''wallet_dump_masterkey'', ''dir'', hex_of_key])) =
     [could_not_get_line (env_of (wallet_of (Some legacy_man) (Some descriptor_man))) kid2] \<and>
   filter is_key_line
     (cout (snd (main (env_of (wallet_of (Some legacy_man) (Some descriptor_man)))
          [''wallet_dump_masterkey'', ''dir'', hex_of_key]))) =
     [key_line (env_of (wallet_of (Some legacy_man) (Some descriptor_man))) kid1 (key_of kid1),
      key_line (env_of (wallet_of (Some legacy_man) (Some descriptor_man))) kid3 (key_of kid3)]"
  using failed_key_is_skipped [OF example_run_reaches_export]
  by (simp add: sorted_example_keys example_exported example_skipped)



text \<open>
  Claim C2. On the three paths on which \<^verbatim>\<open>main\<close> returns after line 100 the region of
  \<^verbatim>\<open>vMasterKey\<close> is zeroed (lemma \<open>main_return_wipes_vMasterKey\<close>). The claim also names
  the exception path, and there the code does not do it: no handler encloses lines
  119--141, so when the key check throws, \<^verbatim>\<open>main\<close> is left at once and none of its
  \<^verbatim>\<open>memory_cleanse\<close> calls runs; \<^verbatim>\<open>vMasterKey\<close> still holds the 32 key bytes. (The plain
  vector \<^verbatim>\<open>mk\<close> keeps its copy on every path.)
\<close>

theorem master_key_not_wiped_on_exception:
  "main (env_of (wallet_of (Some throwing_man) None))
     [''wallet_dump_masterkey'', ''dir'', hex_of_key] =
     (Terminate ''some keys decrypt but not all'',
      \<lparr>cout = [], cerr = [], ecc = True, mk = Some the_key, vMasterKey = Some the_key\<rparr>) \<and>
   the_key = replicate 32 0xA7"
  by (simp add: main_def Let_def length_hex_of_key env_of_def find_spk_man_def wallet_of_def
      check_and_dump_def throwing_man_def parse_hex_of_key the_key_def)

section \<open>Properties of the key manager and the encoding of the spec\<close>

subsection \<open>The Verifier\<close>





lemma the_key_decrypts: "Decrypt toy_cipher the_key record1 = Some (key_of kid1)"
  by code_simp




text \<open>
  The counterpart for the right key: the one record is decrypted and the run prints
  exactly one key line and returns 0.
\<close>

lemma right_key_prints_one_key:
  "main (env_of (wallet_of (Some (store_spk_man toy_cipher store1)) None))
     [''wallet_dump_masterkey'', ''dir'', hex_of_key] =
     (Exit 0,
      \<lparr>cout = [banner_line,
               key_line (env_of (wallet_of (Some (store_spk_man toy_cipher store1)) None))
                 kid1 (key_of kid1),
               done_line],
       cerr = [], ecc = False, mk = Some the_key, vMasterKey = Some (replicate 32 0)\<rparr>)"
proof -
  have v: "verify_and_decrypt toy_cipher store1 the_key True = Inr [(kid1, key_of kid1)]"
    by (simp add: verify_and_decrypt_def store1_def the_key_decrypts)
       (simp add: toy_cipher_def key_of_def record1_def kid1_def)
  let ?m = "store_spk_man toy_cipher store1"
  let ?w = "wallet_of (Some ?m) None"
  let ?argv = "[''wallet_dump_masterkey'', ''dir'', hex_of_key]"
  have p: "ParseHex (env_of ?w) (?argv ! 2) = the_key"
    by (simp add: env_of_def parse_hex_of_key)
  have c: "3 \<le> length ?argv" "length (?argv ! 2) = 64"
    "LoadWallet (env_of ?w) (?argv ! 1) = Returns ?w"
    "find_spk_man ?w = Some ?m"
    "CheckDecryptionKey ?m (self ?m) (ParseHex (env_of ?w) (?argv ! 2)) True
       = Returns (True, [(kid1, key_of kid1)])"
    "GetKeys ?m [(kid1, key_of kid1)] = Returns {|kid1|}"
    "\<forall>k\<in>fset {|kid1|}. \<exists>r. GetKey ?m [(kid1, key_of kid1)] k = Returns r"
    unfolding p
    by (simp_all add: length_hex_of_key env_of_def wallet_of_def find_spk_man_def
        store_spk_man_def v)
  have e: "exported ?m [(kid1, key_of kid1)] [kid1] = [(kid1, key_of kid1)]"
    "skipped ?m [(kid1, key_of kid1)] [kid1] = []"
    by (simp_all add: exported_Cons skipped_def store_spk_man_def)
  have l: "length the_key = 32" by (simp add: the_key_def)
  from main_export [OF c] show ?thesis
    unfolding p l by (simp add: sorted_list_of_fset.rep_eq e)
qed

text \<open>
  Claim C3 (the key check as the spec describes it). On a store with no encrypted
  record the check with \<open>accept_no_keys = true\<close> succeeds with the empty mapping, and
  with \<open>accept_no_keys = false\<close> fails with \<open>WrongKey\<close>; the program, which passes
  \<open>true\<close>, goes on to the export, prints the banner and the completion line with no key
  line between them, and returns 0.
\<close>

theorem empty_store_accepted:
  assumes "encrypted store = []"
    and "3 \<le> length argv" and "length (argv ! 2) = 64"
    and "LoadWallet env (argv ! 1) = Returns wallet"
    and "find_spk_man wallet = Some (store_spk_man c store)"
  shows "verify_and_decrypt c store (ParseHex env (argv ! 2)) True = Inr [] \<and>
    verify_and_decrypt c store (ParseHex env (argv ! 2)) False = Inl WrongKey \<and>
    main env argv =
      (Exit 0, \<lparr>cout = [banner_line, done_line], cerr = [], ecc = False,
                mk = Some (ParseHex env (argv ! 2)),
                vMasterKey = Some (replicate (length (ParseHex env (argv ! 2))) 0)\<rparr>)"
proof -
  have v: "verify_and_decrypt c store (ParseHex env (argv ! 2)) True = Inr []"
    "verify_and_decrypt c store (ParseHex env (argv ! 2)) False = Inl WrongKey"
    using assms(1) by (simp_all add: verify_and_decrypt_def)
  then have "CheckDecryptionKey (store_spk_man c store) (self (store_spk_man c store))
      (ParseHex env (argv ! 2)) True = Returns (True, [])"
    "GetKeys (store_spk_man c store) [] = Returns {||}"
    by (simp_all add: store_spk_man_def)
  with assms(2-5) v show ?thesis
    by (simp add: main_def Let_def check_and_dump_def sorted_list_of_fset.rep_eq)
qed

theorem empty_store_accepted_witness:
  "verify_and_decrypt toy_cipher empty_store the_key True = Inr [] \<and>
   verify_and_decrypt toy_cipher empty_store the_key False = Inl WrongKey \<and>
   main (env_of (wallet_of (Some (store_spk_man toy_cipher empty_store)) None))
     [''wallet_dump_masterkey'', ''dir'', hex_of_key] =
     (Exit 0, \<lparr>cout = [banner_line, done_line], cerr = [], ecc = False,
               mk = Some the_key, vMasterKey = Some (replicate 32 0)\<rparr>)"
proof -
  let ?w = "wallet_of (Some (store_spk_man toy_cipher empty_store)) None"
  let ?argv = "[''wallet_dump_masterkey'', ''dir'', hex_of_key]"
  have a: "encrypted empty_store = []" by (simp add: empty_store_def)
  have c: "3 \<le> length ?argv" "length (?argv ! 2) = 64"
    "LoadWallet (env_of ?w) (?argv ! 1) = Returns ?w"
    "find_spk_man ?w = Some (store_spk_man toy_cipher empty_store)"
    by (simp_all add: length_hex_of_key env_of_def wallet_of_def find_spk_man_def)
  have p: "ParseHex (env_of ?w) (?argv ! 2) = the_key"
    by (simp add: env_of_def parse_hex_of_key)
  have l: "length the_key = 32" by (simp add: the_key_def)
  from empty_store_accepted [OF a c] show ?thesis
    unfolding p l .
qed

subsection \<open>Base58 and WIF\<close>

declare to_base.simps [simp del]

lemma from_base_snoc: "from_base b (ds @ [d]) = from_base b ds * b + d"
  by (simp add: from_base_def)

lemma from_base_Nil [simp]: "from_base b [] = 0"
  by (simp add: from_base_def)

lemma to_base_0 [simp]: "to_base b 0 = []"
  by (simp add: to_base.simps)

lemma from_to_base: "2 \<le> b \<Longrightarrow> from_base b (to_base b n) = n"
proof (induction b n rule: to_base.induct)
  case (1 b n)
  show ?case
  proof (cases "n = 0")
    case True
    then show ?thesis by simp
  next
    case False
    with 1 have "from_base b (to_base b (n div b)) = n div b" by simp
    with False 1(2) show ?thesis
      by (subst to_base.simps) (simp add: from_base_snoc)
  qed
qed

lemma to_base_digits: "d \<in> set (to_base b n) \<Longrightarrow> d < b"
proof (induction b n rule: to_base.induct)
  case (1 b n)
  show ?case
  proof (cases "b < 2 \<or> n = 0")
    case True
    with 1(2) show ?thesis by (simp add: to_base.simps)
  next
    case False
    with 1(2) have "d \<in> set (to_base b (n div b)) \<or> d = n mod b"
      by (subst (asm) to_base.simps) auto
    with 1(1) False show ?thesis by auto
  qed
qed

lemma to_base_eq_Nil: "2 \<le> b \<Longrightarrow> to_base b n = [] \<longleftrightarrow> n = 0"
  by (subst to_base.simps) auto

lemma to_base_hd: "2 \<le> b \<Longrightarrow> 0 < n \<Longrightarrow> hd (to_base b n) \<noteq> 0"
proof (induction b n rule: to_base.induct)
  case (1 b n)
  show ?case
  proof (cases "n div b = 0")
    case True
    with 1(2,3) have "n < b" by (simp add: div_eq_0_iff)
    with 1(2,3) True show ?thesis by (subst to_base.simps) simp
  next
    case False
    with 1 have "hd (to_base b (n div b)) \<noteq> 0" by simp
    moreover have "to_base b (n div b) \<noteq> []" using False 1(2) by (simp add: to_base_eq_Nil)
    ultimately show ?thesis using 1(2,3) by (subst to_base.simps) simp
  qed
qed

lemma to_from_base:
  "2 \<le> b \<Longrightarrow> \<forall>d\<in>set ds. d < b \<Longrightarrow> ds = [] \<or> hd ds \<noteq> 0 \<Longrightarrow> to_base b (from_base b ds) = ds"
proof (induction ds rule: rev_induct)
  case Nil
  then show ?case by simp
next
  case (snoc d ds)
  have d: "d < b" using snoc.prems(2) by simp
  have IH: "to_base b (from_base b ds) = ds"
    using snoc by (cases ds) auto
  have nz: "from_base b ds * b + d \<noteq> 0"
  proof (cases ds)
    case Nil
    with snoc.prems(3) show ?thesis by simp
  next
    case (Cons x xs)
    with IH have "to_base b (from_base b ds) \<noteq> []" by simp
    with snoc.prems(1) have "from_base b ds \<noteq> 0" by (simp add: to_base_eq_Nil)
    with snoc.prems(1) show ?thesis by simp
  qed
  have "to_base b (from_base b ds * b + d) =
      to_base b ((from_base b ds * b + d) div b) @ [(from_base b ds * b + d) mod b]"
    using nz snoc.prems(1) by (subst to_base.simps) simp
  also have "(from_base b ds * b + d) div b = from_base b ds" using d by simp
  also have "(from_base b ds * b + d) mod b = d" using d by simp
  finally show ?case by (simp add: from_base_snoc IH)
qed

lemma from_base_zeros: "from_base b (replicate z 0 @ ds) = from_base b ds"
  by (induction z) (simp_all add: from_base_def)

lemma length_pszBase58: "length pszBase58 = 58"
  by (simp add: pszBase58_def)

lemma distinct_pszBase58: "distinct pszBase58"
  by (simp add: pszBase58_def)

lemma base58_digit_nth: "d < 58 \<Longrightarrow> base58_digit (pszBase58 ! d) = Some d"
  unfolding base58_digit_def
  using map_of_zip_nth [of pszBase58 "[0 ..< 58]" d]
  by (simp add: length_pszBase58 distinct_pszBase58)

lemma pszBase58_0: "pszBase58 ! 0 = CHR ''1''"
  by (simp add: pszBase58_def)

lemma pszBase58_nth_one: "d < 58 \<Longrightarrow> pszBase58 ! d = CHR ''1'' \<longleftrightarrow> d = 0"
  using nth_eq_iff_index_eq [OF distinct_pszBase58, of d 0]
  by (simp add: length_pszBase58 pszBase58_0)

lemma those_map_Some: "those (map Some xs) = Some xs"
  by (induction xs) simp_all

lemma map_base58_digit:
  "\<forall>d\<in>set ds. d < 58 \<Longrightarrow> map base58_digit (map (\<lambda>d. pszBase58 ! d) ds) = map Some ds"
  by (induction ds) (simp_all add: base58_digit_nth)

lemma takeWhile_zeros_split:
  "bs = replicate (length (takeWhile (\<lambda>b. b = 0) bs)) 0 @ dropWhile (\<lambda>b. b = 0) bs"
proof -
  have "takeWhile (\<lambda>b. b = 0) bs = replicate (length (takeWhile (\<lambda>b. b = 0) bs)) 0"
    by (induction bs) simp_all
  then show ?thesis
    by (metis takeWhile_dropWhile_id)
qed

lemma takeWhile_replicate_append:
  "P x \<Longrightarrow> takeWhile P (replicate z x @ ys) = replicate z x @ takeWhile P ys"
  by (induction z) simp_all

lemma dropWhile_hd: "dropWhile P xs = [] \<or> \<not> P (hd (dropWhile P xs))"
  by (metis hd_dropWhile)

lemma DecodeBase58_EncodeBase58: "DecodeBase58 (EncodeBase58 bs) = Some bs"
proof -
  define z where "z = length (takeWhile (\<lambda>b. b = 0) bs)"
  define rest where "rest = dropWhile (\<lambda>b. b = (0::byte)) bs"
  define n where "n = from_base 256 (map unat bs)"
  define ds where "ds = to_base 58 n"
  have bs: "bs = replicate z 0 @ rest"
    unfolding z_def rest_def by (rule takeWhile_zeros_split)
  have rest_hd: "rest = [] \<or> hd rest \<noteq> 0"
    unfolding rest_def using dropWhile_hd [of "\<lambda>b. b = 0" bs] by simp
  have n_rest: "n = from_base 256 (map unat rest)"
    unfolding n_def by (subst bs) (simp add: from_base_zeros)
  have ds_lt: "\<forall>d\<in>set ds. d < 58"
    unfolding ds_def using to_base_digits by blast
  have enc: "EncodeBase58 bs = replicate z (CHR ''1'') @ map (\<lambda>d. pszBase58 ! d) ds"
    by (simp add: EncodeBase58_def z_def ds_def n_def)
  have digits: "those (map base58_digit (EncodeBase58 bs)) = Some (replicate z 0 @ ds)"
  proof -
    have "map base58_digit (replicate z (CHR ''1'')) = map Some (replicate z 0)"
      using base58_digit_nth [of 0] by (simp add: pszBase58_0)
    moreover have "map base58_digit (map (\<lambda>d. pszBase58 ! d) ds) = map Some ds"
      by (rule map_base58_digit [OF ds_lt])
    ultimately have "map base58_digit (EncodeBase58 bs) = map Some (replicate z 0 @ ds)"
      unfolding enc by (simp only: map_append)
    then show ?thesis by (simp only: those_map_Some)
  qed
  have ones: "takeWhile (\<lambda>c. c = CHR ''1'') (EncodeBase58 bs) = replicate z (CHR ''1'')"
  proof (cases "n = 0")
    case True
    then show ?thesis by (simp add: enc ds_def takeWhile_replicate_append)
  next
    case False
    then have "ds \<noteq> []" "hd ds \<noteq> 0"
      by (simp_all add: ds_def to_base_eq_Nil to_base_hd)
    then obtain d ds' where d: "ds = d # ds'" "d \<noteq> 0" by (cases ds) auto
    with ds_lt have "pszBase58 ! d \<noteq> CHR ''1''"
      by (simp add: pszBase58_nth_one)
    then show ?thesis
      by (simp add: enc d takeWhile_replicate_append)
  qed
  have bytes: "to_base 256 (from_base 58 (replicate z 0 @ ds)) = map unat rest"
  proof -
    have "from_base 58 (replicate z 0 @ ds) = n"
      by (simp add: from_base_zeros ds_def from_to_base)
    moreover have "to_base 256 (from_base 256 (map unat rest)) = map unat rest"
    proof (rule to_from_base)
      show "\<forall>d\<in>set (map unat rest). d < 256"
      proof
        fix d assume "d \<in> set (map unat rest)"
        then obtain w :: byte where "d = unat w" by auto
        then show "d < 256" using unsigned_less [of w] by simp
      qed
      show "map unat rest = [] \<or> hd (map unat rest) \<noteq> 0"
        using rest_hd by (cases rest) (auto simp: unat_eq_0)
    qed simp
    ultimately show ?thesis by (simp add: n_rest)
  qed
  have "DecodeBase58 (EncodeBase58 bs) = Some (replicate z 0 @ map of_nat (map unat rest))"
    by (simp add: DecodeBase58_def digits ones bytes)
  also have "map of_nat (map unat rest) = rest"
    by (simp add: map_idI)
  finally show ?thesis using bs by simp
qed

text \<open>
  Claim C6 (the encoding as the spec describes it). For every key with a 32-byte
  scalar, either compression flag and every version byte, decoding the WIF string of
  the key gives back the key: the same scalar and the same flag. The hash is any
  function that returns at least four bytes.
\<close>

theorem wif_round_trip:
  assumes "length (keydata key) = 32" and "\<forall>x. 4 \<le> length (Hash x)"
  shows "DecodeSecret_wif Hash version (EncodeSecret_wif Hash version key) = Some key"
proof -
  define data where "data = [version] @ keydata key @ (if fCompressed key then [1] else [])"
  define chk where "chk = take 4 (Hash (Hash data))"
  have "4 \<le> length (Hash (Hash data))"
    using assms(2) by blast
  then have chk: "length chk = 4"
    by (simp add: chk_def)
  have enc: "EncodeSecret_wif Hash version key = EncodeBase58 (data @ chk)"
    by (simp add: EncodeSecret_wif_def data_def chk_def Let_def)
  have split: "take (length (data @ chk) - 4) (data @ chk) = data"
    "drop (length (data @ chk) - 4) (data @ chk) = chk"
    using chk by simp_all
  have "DecodeSecret_wif Hash version (EncodeSecret_wif Hash version key) =
     (case data of
        [] \<Rightarrow> None
      | v # payload \<Rightarrow>
          if v \<noteq> version then None
          else if length payload = 32
            then Some \<lparr>keydata = payload, fCompressed = False\<rparr>
          else if length payload = 33 \<and> last payload = 1
            then Some \<lparr>keydata = butlast payload, fCompressed = True\<rparr>
          else None)"
    unfolding enc DecodeSecret_wif_def DecodeBase58_EncodeBase58 option.case Let_def split
    using chk by (simp add: chk_def)
  also have "\<dots> = Some key"
    using assms(1) by (cases key) (simp add: data_def)
  finally show ?thesis .
qed

theorem wif_round_trip_witness:
  "length (keydata (key_of kid1)) = 32 \<and>
   DecodeSecret_wif toy_hash 0xEF (EncodeSecret_wif toy_hash 0xEF (key_of kid1)) =
     Some (key_of kid1)"
proof -
  have a: "length (keydata (key_of kid1)) = 32" by (simp add: key_of_def)
  have b: "\<forall>x. 4 \<le> length (toy_hash x)" by (simp add: toy_hash_def)
  from a wif_round_trip [OF a b] show ?thesis by simp
qed

end
